theory Spec2Isabelle
  imports Complex_Main "HOL-Library.Word"
begin

section \<open>Double-precision values\<close>

text \<open>
  The kernel is the WebAssembly function \<^verbatim>\<open>c_drotm_ndarray\<close> embedded (base64) in
  \<^verbatim>\<open>index.mjs\<close>; it computes on \<^verbatim>\<open>f64\<close> values with \<^verbatim>\<open>f64.add\<close>, \<^verbatim>\<open>f64.sub\<close>,
  \<^verbatim>\<open>f64.mul\<close>, \<^verbatim>\<open>f64.eq\<close> and \<^verbatim>\<open>f64.lt\<close>.

  A double is modelled as a finite value, an infinity or NaN. The two zeros are
  identified and NaN payloads are dropped: none of the five instructions above tells
  them apart. The rounding of a finite result to the nearest double (or to an infinity
  on overflow) is the parameter \<open>rnd\<close> of the arithmetic, so every statement below holds
  for the rounding of IEEE-754 in particular.
\<close>

datatype f64 = Num rat | PInf | MInf | NaN

fun f64_add :: "(rat \<Rightarrow> f64) \<Rightarrow> f64 \<Rightarrow> f64 \<Rightarrow> f64" where
  "f64_add rnd NaN b = NaN"
| "f64_add rnd a NaN = NaN"
| "f64_add rnd PInf MInf = NaN"
| "f64_add rnd MInf PInf = NaN"
| "f64_add rnd PInf b = PInf"
| "f64_add rnd MInf b = MInf"
| "f64_add rnd (Num a) PInf = PInf"
| "f64_add rnd (Num a) MInf = MInf"
| "f64_add rnd (Num a) (Num b) = rnd (a + b)"

fun f64_neg :: "f64 \<Rightarrow> f64" where
  "f64_neg NaN = NaN"
| "f64_neg PInf = MInf"
| "f64_neg MInf = PInf"
| "f64_neg (Num a) = Num (- a)"

fun f64_sub :: "(rat \<Rightarrow> f64) \<Rightarrow> f64 \<Rightarrow> f64 \<Rightarrow> f64" where
  "f64_sub rnd (Num a) (Num b) = rnd (a - b)"
| "f64_sub rnd a b = f64_add rnd a (f64_neg b)"

fun f64_mul :: "(rat \<Rightarrow> f64) \<Rightarrow> f64 \<Rightarrow> f64 \<Rightarrow> f64" where
  "f64_mul rnd NaN b = NaN"
| "f64_mul rnd a NaN = NaN"
| "f64_mul rnd (Num a) (Num b) = rnd (a * b)"
| "f64_mul rnd (Num a) PInf = (if a = 0 then NaN else if 0 < a then PInf else MInf)"
| "f64_mul rnd (Num a) MInf = (if a = 0 then NaN else if 0 < a then MInf else PInf)"
| "f64_mul rnd PInf (Num b) = (if b = 0 then NaN else if 0 < b then PInf else MInf)"
| "f64_mul rnd MInf (Num b) = (if b = 0 then NaN else if 0 < b then MInf else PInf)"
| "f64_mul rnd PInf PInf = PInf"
| "f64_mul rnd MInf MInf = PInf"
| "f64_mul rnd PInf MInf = MInf"
| "f64_mul rnd MInf PInf = MInf"

text \<open>Comparisons with NaN are false, as \<^verbatim>\<open>f64.eq\<close> and \<^verbatim>\<open>f64.lt\<close> have it.\<close>

fun f64_eq :: "f64 \<Rightarrow> f64 \<Rightarrow> bool" where
  "f64_eq (Num a) (Num b) = (a = b)"
| "f64_eq PInf PInf = True"
| "f64_eq MInf MInf = True"
| "f64_eq a b = False"

fun f64_lt :: "f64 \<Rightarrow> f64 \<Rightarrow> bool" where
  "f64_lt (Num a) (Num b) = (a < b)"
| "f64_lt MInf (Num b) = True"
| "f64_lt MInf PInf = True"
| "f64_lt (Num a) PInf = True"
| "f64_lt a b = False"

section \<open>Linear memory\<close>

text \<open>
  The module imports its memory from the host. A load or store of 8 bytes at an
  effective address \<open>ea\<close> traps unless \<open>ea + 8\<close> is within the memory's size; the
  effective address is the 32-bit base plus the instruction's constant offset, without
  wrap-around. The three pointers are \<^verbatim>\<open>double *\<close> in the C signature and every access
  has alignment hint 3, so the doubles of a call lie in cells of 8 bytes that do not
  partly overlap: the model keeps one double per address. A trap leaves the memory as
  the stores before it have made it; the trap carries that memory.

  A store changes the double at its own address only. The model is therefore exact for
  the calls whose cells are pairwise the same or at least 8 bytes apart, as they are
  when the pointers are multiples of 8; for a load at fewer than 8 bytes from an earlier
  store of the same call, the binary reads bytes of that store and the model does not.
  A statement that compares the contents left in several cells says so among its
  hypotheses (\<open>cells_apart\<close> below).
\<close>

type_synonym i32 = "32 word"

record memory =
  mem_size :: nat
  mem_cells :: "nat \<Rightarrow> f64"

datatype trap = Trap memory

definition f64_load :: "memory \<Rightarrow> i32 \<Rightarrow> nat \<Rightarrow> trap + f64" where
  "f64_load m base off =
     (if unat base + off + 8 \<le> mem_size m then Inr (mem_cells m (unat base + off))
      else Inl (Trap m))"

definition f64_store :: "memory \<Rightarrow> i32 \<Rightarrow> nat \<Rightarrow> f64 \<Rightarrow> trap + memory" where
  "f64_store m base off v =
     (if unat base + off + 8 \<le> mem_size m
      then Inr (m\<lparr>mem_cells := (mem_cells m)(unat base + off := v)\<rparr>)
      else Inl (Trap m))"

text \<open>Sequencing: a trap ends the call.\<close>

definition andthen :: "trap + 'a \<Rightarrow> ('a \<Rightarrow> trap + 'b) \<Rightarrow> trap + 'b" where
  "andthen r f = (case r of Inl e \<Rightarrow> Inl e | Inr v \<Rightarrow> f v)"

section \<open>The kernel \<^verbatim>\<open>c_drotm_ndarray\<close>\<close>

text \<open>
  The bytecode holds six copies of the loop: one group of three for equal positive
  strides, one group of three for the other strides, and in each group one loop for
  \<^verbatim>\<open>flag < 0\<close>, one for \<^verbatim>\<open>flag == 0\<close> and one for the remaining flags. The bodies are
  given in the order of their instructions: both loads, then the store to \<open>x\<close>, then the
  store to \<open>y\<close>.
\<close>

text \<open>Equal positive strides: the address of the \<open>y\<close> element is taken from \<open>ix\<close>.\<close>

definition body_eq_neg ::
  "(rat \<Rightarrow> f64) \<Rightarrow> f64 \<Rightarrow> f64 \<Rightarrow> f64 \<Rightarrow> f64 \<Rightarrow> i32 \<Rightarrow> i32 \<Rightarrow> i32 \<Rightarrow> memory \<Rightarrow> trap + memory" where
  "body_eq_neg rnd h11 h21 h12 h22 X Y ix m =
     (let xa = X + push_bit 3 ix; ya = Y + push_bit 3 ix in
      andthen (f64_load m xa 0) (\<lambda>w.
      andthen (f64_load m ya 0) (\<lambda>z.
      andthen (f64_store m xa 0 (f64_add rnd (f64_mul rnd w h11) (f64_mul rnd h12 z))) (\<lambda>m1.
      f64_store m1 ya 0 (f64_add rnd (f64_mul rnd w h21) (f64_mul rnd h22 z))))))"

definition body_eq_zero ::
  "(rat \<Rightarrow> f64) \<Rightarrow> f64 \<Rightarrow> f64 \<Rightarrow> i32 \<Rightarrow> i32 \<Rightarrow> i32 \<Rightarrow> memory \<Rightarrow> trap + memory" where
  "body_eq_zero rnd h21 h12 X Y ix m =
     (let xa = X + push_bit 3 ix; ya = Y + push_bit 3 ix in
      andthen (f64_load m ya 0) (\<lambda>z.
      andthen (f64_load m xa 0) (\<lambda>w.
      andthen (f64_store m xa 0 (f64_add rnd (f64_mul rnd z h12) w)) (\<lambda>m1.
      f64_store m1 ya 0 (f64_add rnd z (f64_mul rnd w h21))))))"

definition body_eq_pos ::
  "(rat \<Rightarrow> f64) \<Rightarrow> f64 \<Rightarrow> f64 \<Rightarrow> i32 \<Rightarrow> i32 \<Rightarrow> i32 \<Rightarrow> memory \<Rightarrow> trap + memory" where
  "body_eq_pos rnd h11 h22 X Y ix m =
     (let xa = X + push_bit 3 ix; ya = Y + push_bit 3 ix in
      andthen (f64_load m xa 0) (\<lambda>w.
      andthen (f64_load m ya 0) (\<lambda>z.
      andthen (f64_store m xa 0 (f64_add rnd (f64_mul rnd w h11) z)) (\<lambda>m1.
      f64_store m1 ya 0 (f64_sub rnd (f64_mul rnd z h22) w)))))"

text \<open>
  The loop of the first group: the counter \<open>i\<close> runs from 0 until it equals \<open>N\<close>, and
  \<open>ix\<close> advances by \<open>strideX\<close>. All of it is 32-bit arithmetic.
\<close>

function loop_eq ::
  "(i32 \<Rightarrow> memory \<Rightarrow> trap + memory) \<Rightarrow> i32 \<Rightarrow> i32 \<Rightarrow> i32 \<Rightarrow> i32 \<Rightarrow> memory \<Rightarrow> trap + memory" where
  "loop_eq body N strideX i ix m =
     (if N = i then Inr m
      else case body ix m of
             Inl e \<Rightarrow> Inl e
           | Inr m' \<Rightarrow> loop_eq body N strideX (i + 1) (strideX + ix) m')"
  by pat_completeness auto
termination
proof (relation "measure (\<lambda>(body, N, strideX, i, ix, m). unat (N - i))")
  show "wf (measure (\<lambda>(body, N, strideX, i, ix, m). unat (N - i)))"
    by simp
next
  fix body :: "i32 \<Rightarrow> memory \<Rightarrow> trap + memory" and N strideX i ix :: i32
    and m m' :: memory
  assume "N \<noteq> i"
  then have "N - i \<noteq> 0" by simp
  then have "unat (N - i - 1) < unat (N - i)" by (rule measure_unat)
  then have "unat (N - (i + 1)) < unat (N - i)" by (simp add: diff_diff_eq)
  then show "((body, N, strideX, i + 1, strideX + ix, m'), (body, N, strideX, i, ix, m))
      \<in> measure (\<lambda>(body, N, strideX, i, ix, m). unat (N - i))"
    by simp
qed

text \<open>Other strides: \<open>iy\<close> is kept beside \<open>ix\<close> and advances by \<open>strideY\<close>.\<close>

definition body_neg ::
  "(rat \<Rightarrow> f64) \<Rightarrow> f64 \<Rightarrow> f64 \<Rightarrow> f64 \<Rightarrow> f64 \<Rightarrow> i32 \<Rightarrow> i32 \<Rightarrow> i32 \<Rightarrow> i32 \<Rightarrow> memory \<Rightarrow> trap + memory" where
  "body_neg rnd h11 h21 h12 h22 X Y ix iy m =
     (let xa = X + push_bit 3 ix; ya = Y + push_bit 3 iy in
      andthen (f64_load m xa 0) (\<lambda>w.
      andthen (f64_load m ya 0) (\<lambda>z.
      andthen (f64_store m xa 0 (f64_add rnd (f64_mul rnd w h11) (f64_mul rnd h12 z))) (\<lambda>m1.
      f64_store m1 ya 0 (f64_add rnd (f64_mul rnd w h21) (f64_mul rnd h22 z))))))"

definition body_zero ::
  "(rat \<Rightarrow> f64) \<Rightarrow> f64 \<Rightarrow> f64 \<Rightarrow> i32 \<Rightarrow> i32 \<Rightarrow> i32 \<Rightarrow> i32 \<Rightarrow> memory \<Rightarrow> trap + memory" where
  "body_zero rnd h21 h12 X Y ix iy m =
     (let xa = X + push_bit 3 ix; ya = Y + push_bit 3 iy in
      andthen (f64_load m ya 0) (\<lambda>z.
      andthen (f64_load m xa 0) (\<lambda>w.
      andthen (f64_store m xa 0 (f64_add rnd (f64_mul rnd z h12) w)) (\<lambda>m1.
      f64_store m1 ya 0 (f64_add rnd z (f64_mul rnd w h21))))))"

definition body_pos ::
  "(rat \<Rightarrow> f64) \<Rightarrow> f64 \<Rightarrow> f64 \<Rightarrow> i32 \<Rightarrow> i32 \<Rightarrow> i32 \<Rightarrow> i32 \<Rightarrow> memory \<Rightarrow> trap + memory" where
  "body_pos rnd h11 h22 X Y ix iy m =
     (let xa = X + push_bit 3 ix; ya = Y + push_bit 3 iy in
      andthen (f64_load m xa 0) (\<lambda>w.
      andthen (f64_load m ya 0) (\<lambda>z.
      andthen (f64_store m xa 0 (f64_add rnd (f64_mul rnd w h11) z)) (\<lambda>m1.
      f64_store m1 ya 0 (f64_sub rnd (f64_mul rnd z h22) w)))))"

function loop_ne ::
  "(i32 \<Rightarrow> i32 \<Rightarrow> memory \<Rightarrow> trap + memory) \<Rightarrow> i32 \<Rightarrow> i32 \<Rightarrow> i32 \<Rightarrow> i32 \<Rightarrow> i32 \<Rightarrow> i32 \<Rightarrow> memory
     \<Rightarrow> trap + memory" where
  "loop_ne body N strideX strideY i ix iy m =
     (if N = i then Inr m
      else case body ix iy m of
             Inl e \<Rightarrow> Inl e
           | Inr m' \<Rightarrow> loop_ne body N strideX strideY (i + 1) (strideX + ix) (strideY + iy) m')"
  by pat_completeness auto
termination
proof (relation "measure (\<lambda>(body, N, strideX, strideY, i, ix, iy, m). unat (N - i))")
  show "wf (measure (\<lambda>(body, N, strideX, strideY, i, ix, iy, m). unat (N - i)))"
    by simp
next
  fix body :: "i32 \<Rightarrow> i32 \<Rightarrow> memory \<Rightarrow> trap + memory" and N strideX strideY i ix iy :: i32
    and m m' :: memory
  assume "N \<noteq> i"
  then have "N - i \<noteq> 0" by simp
  then have "unat (N - i - 1) < unat (N - i)" by (rule measure_unat)
  then have "unat (N - (i + 1)) < unat (N - i)" by (simp add: diff_diff_eq)
  then show "((body, N, strideX, strideY, i + 1, strideX + ix, strideY + iy, m'),
       (body, N, strideX, strideY, i, ix, iy, m))
      \<in> measure (\<lambda>(body, N, strideX, strideY, i, ix, iy, m). unat (N - i))"
    by simp
qed

declare loop_eq.simps [simp del] loop_ne.simps [simp del]

text \<open>
  The function: parameters \<open>N\<close>, \<open>X\<close>, \<open>strideX\<close>, \<open>offsetX\<close>, \<open>Y\<close>, \<open>strideY\<close>, \<open>offsetY\<close>
  and \<open>param\<close> (locals 0 to 7). It returns nothing; the model returns the memory it
  leaves, or the trap.
\<close>

definition c_drotm_ndarray ::
  "(rat \<Rightarrow> f64) \<Rightarrow> i32 \<Rightarrow> i32 \<Rightarrow> i32 \<Rightarrow> i32 \<Rightarrow> i32 \<Rightarrow> i32 \<Rightarrow> i32 \<Rightarrow> i32 \<Rightarrow> memory \<Rightarrow> trap + memory" where
  "c_drotm_ndarray rnd N X strideX offsetX Y strideY offsetY param m =
     (if word_sle N 0 then Inr m
      else andthen (f64_load m param 0) (\<lambda>flag.
        if f64_eq flag (Num (- 2)) then Inr m
        else if \<not> (strideX \<noteq> strideY \<or> word_sle strideX 0) then
          (if f64_lt flag (Num 0) then
             andthen (f64_load m param 32) (\<lambda>h22.
             andthen (f64_load m param 16) (\<lambda>h21.
             andthen (f64_load m param 24) (\<lambda>h12.
             andthen (f64_load m param 8) (\<lambda>h11.
             loop_eq (body_eq_neg rnd h11 h21 h12 h22 X Y) N strideX 0 offsetX m))))
           else if f64_eq flag (Num 0) then
             andthen (f64_load m param 16) (\<lambda>h21.
             andthen (f64_load m param 24) (\<lambda>h12.
             loop_eq (body_eq_zero rnd h21 h12 X Y) N strideX 0 offsetX m))
           else
             andthen (f64_load m param 32) (\<lambda>h22.
             andthen (f64_load m param 8) (\<lambda>h11.
             loop_eq (body_eq_pos rnd h11 h22 X Y) N strideX 0 offsetX m)))
        else
          (if f64_lt flag (Num 0) then
             andthen (f64_load m param 32) (\<lambda>h22.
             andthen (f64_load m param 16) (\<lambda>h21.
             andthen (f64_load m param 24) (\<lambda>h12.
             andthen (f64_load m param 8) (\<lambda>h11.
             loop_ne (body_neg rnd h11 h21 h12 h22 X Y) N strideX strideY 0 offsetX offsetY m))))
           else if f64_eq flag (Num 0) then
             andthen (f64_load m param 16) (\<lambda>h21.
             andthen (f64_load m param 24) (\<lambda>h12.
             loop_ne (body_zero rnd h21 h12 X Y) N strideX strideY 0 offsetX offsetY m))
           else
             andthen (f64_load m param 32) (\<lambda>h22.
             andthen (f64_load m param 8) (\<lambda>h11.
             loop_ne (body_pos rnd h11 h22 X Y) N strideX strideY 0 offsetX offsetY m)))))"

section \<open>The function \<^verbatim>\<open>c_drotm\<close>\<close>

text \<open>
  Parameters \<open>N\<close>, \<open>X\<close>, \<open>strideX\<close>, \<open>Y\<close>, \<open>strideY\<close>, \<open>param\<close>. It computes \<open>1 - N\<close> once,
  selects each offset with \<^verbatim>\<open>stride <= 0\<close> and calls the kernel.
\<close>

definition c_drotm ::
  "(rat \<Rightarrow> f64) \<Rightarrow> i32 \<Rightarrow> i32 \<Rightarrow> i32 \<Rightarrow> i32 \<Rightarrow> i32 \<Rightarrow> i32 \<Rightarrow> memory \<Rightarrow> trap + memory" where
  "c_drotm rnd N X strideX Y strideY param m =
     (let t = 1 - N in
      c_drotm_ndarray rnd N X strideX (if word_sle strideX 0 then t * strideX else 0)
        Y strideY (if word_sle strideY 0 then t * strideY else 0) param m)"

section \<open>The module wrapper (\<^verbatim>\<open>lib/module.js\<close>)\<close>

text \<open>
  \<^verbatim>\<open>Module.prototype.main\<close> and \<^verbatim>\<open>Module.prototype.ndarray\<close> call the export and return
  \<open>yptr\<close>. A trap of the export is thrown on to the caller. The arguments are the
  32-bit integers the exports receive.
\<close>

definition Module_main ::
  "(rat \<Rightarrow> f64) \<Rightarrow> i32 \<Rightarrow> i32 \<Rightarrow> i32 \<Rightarrow> i32 \<Rightarrow> i32 \<Rightarrow> i32 \<Rightarrow> memory \<Rightarrow> trap + (i32 \<times> memory)" where
  "Module_main rnd N xptr strideX yptr strideY pptr m =
     andthen (c_drotm rnd N xptr strideX yptr strideY pptr m) (\<lambda>m'. Inr (yptr, m'))"

definition Module_ndarray ::
  "(rat \<Rightarrow> f64) \<Rightarrow> i32 \<Rightarrow> i32 \<Rightarrow> i32 \<Rightarrow> i32 \<Rightarrow> i32 \<Rightarrow> i32 \<Rightarrow> i32 \<Rightarrow> i32 \<Rightarrow> memory
     \<Rightarrow> trap + (i32 \<times> memory)" where
  "Module_ndarray rnd N xptr strideX offsetX yptr strideY offsetY pptr m =
     andthen (c_drotm_ndarray rnd N xptr strideX offsetX yptr strideY offsetY pptr m)
       (\<lambda>m'. Inr (yptr, m'))"

section \<open>The specification's reading of a call\<close>

text \<open>
  The five parameters \<open>[flag, h11, h21, h12, h22]\<close> are the doubles at
  \<open>param\<close>, \<open>param + 8\<close>, and so on up to \<open>param + 32\<close>.
\<close>

definition param_at :: "memory \<Rightarrow> i32 \<Rightarrow> nat \<Rightarrow> f64" where
  "param_at m param k = mem_cells m (unat param + 8 * k)"

text \<open>
  The address of element \<open>offset + i * stride\<close> of the vector at \<open>ptr\<close>, in the 32-bit
  arithmetic of the module.
\<close>

definition elem_addr :: "i32 \<Rightarrow> i32 \<Rightarrow> i32 \<Rightarrow> nat \<Rightarrow> nat" where
  "elem_addr ptr stride offset i = unat (ptr + push_bit 3 (offset + of_nat i * stride))"

text \<open>The three transformations of section 4.1, as a pair (new \<open>x\<close>, new \<open>y\<close>).\<close>

definition full_matrix :: "(rat \<Rightarrow> f64) \<Rightarrow> f64 \<Rightarrow> f64 \<Rightarrow> f64 \<Rightarrow> f64 \<Rightarrow> f64 \<Rightarrow> f64 \<Rightarrow> f64 \<times> f64" where
  "full_matrix rnd h11 h21 h12 h22 w z =
     (f64_add rnd (f64_mul rnd w h11) (f64_mul rnd z h12),
      f64_add rnd (f64_mul rnd w h21) (f64_mul rnd z h22))"

definition unit_diagonal :: "(rat \<Rightarrow> f64) \<Rightarrow> f64 \<Rightarrow> f64 \<Rightarrow> f64 \<Rightarrow> f64 \<Rightarrow> f64 \<times> f64" where
  "unit_diagonal rnd h21 h12 w z =
     (f64_add rnd w (f64_mul rnd z h12), f64_add rnd (f64_mul rnd w h21) z)"

definition unit_antidiagonal :: "(rat \<Rightarrow> f64) \<Rightarrow> f64 \<Rightarrow> f64 \<Rightarrow> f64 \<Rightarrow> f64 \<Rightarrow> f64 \<times> f64" where
  "unit_antidiagonal rnd h11 h22 w z =
     (f64_add rnd (f64_mul rnd w h11) z, f64_sub rnd (f64_mul rnd z h22) w)"

text \<open>
  One iteration on the cells at \<open>xa\<close> and \<open>ya\<close>: both values are read, then both
  results are written, the one of \<open>y\<close> last. It traps when a cell is outside the memory.
\<close>

definition update_pair :: "(f64 \<Rightarrow> f64 \<Rightarrow> f64 \<times> f64) \<Rightarrow> nat \<Rightarrow> nat \<Rightarrow> memory \<Rightarrow> memory" where
  "update_pair f xa ya m =
     m\<lparr>mem_cells := (mem_cells m)
          (xa := fst (f (mem_cells m xa) (mem_cells m ya)),
           ya := snd (f (mem_cells m xa) (mem_cells m ya)))\<rparr>"

definition step_at :: "(f64 \<Rightarrow> f64 \<Rightarrow> f64 \<times> f64) \<Rightarrow> nat \<Rightarrow> nat \<Rightarrow> memory \<Rightarrow> trap + memory" where
  "step_at f xa ya m =
     (if xa + 8 \<le> mem_size m \<and> ya + 8 \<le> mem_size m then Inr (update_pair f xa ya m)
      else Inl (Trap m))"

text \<open>The iterations \<open>is\<close>, one after the other.\<close>

fun steps :: "(nat \<Rightarrow> memory \<Rightarrow> trap + memory) \<Rightarrow> nat list \<Rightarrow> memory \<Rightarrow> trap + memory" where
  "steps f [] m = Inr m"
| "steps f (i # is) m = andthen (f i m) (steps f is)"

subsection \<open>Read off the bytecode\<close>

text \<open>
  The next two definitions describe the kernel, not the specification. The cell of \<open>y\<close>
  that iteration \<open>i\<close> of the kernel reads and writes: on the path for equal positive
  strides it is \<open>Y + 8 * (offsetX + i * strideX)\<close>, and \<open>offsetY\<close> is not used; on the other
  path it is the specification's \<open>Y + 8 * (offsetY + i * strideY)\<close>.
\<close>

definition kernel_y_addr :: "i32 \<Rightarrow> i32 \<Rightarrow> i32 \<Rightarrow> i32 \<Rightarrow> i32 \<Rightarrow> nat \<Rightarrow> nat" where
  "kernel_y_addr Y strideX offsetX strideY offsetY i =
     (if strideX = strideY \<and> \<not> word_sle strideX 0 then elem_addr Y strideX offsetX i
      else elem_addr Y strideY offsetY i)"

text \<open>The transformation the kernel selects from the flag.\<close>

definition kernel_rotation ::
  "(rat \<Rightarrow> f64) \<Rightarrow> f64 \<Rightarrow> f64 \<Rightarrow> f64 \<Rightarrow> f64 \<Rightarrow> f64 \<Rightarrow> f64 \<Rightarrow> f64 \<Rightarrow> f64 \<times> f64" where
  "kernel_rotation rnd flag h11 h21 h12 h22 =
     (if f64_lt flag (Num 0) then full_matrix rnd h11 h21 h12 h22
      else if f64_eq flag (Num 0) then unit_diagonal rnd h21 h12
      else unit_antidiagonal rnd h11 h22)"

subsection \<open>Examples, default offsets and the reference\<close>

text \<open>
  Writing doubles to the memory and reading them back, for the examples: element \<open>k\<close>
  of the list is the double at byte \<open>8 * k\<close>.
\<close>

definition memory_of :: "rat list \<Rightarrow> memory" where
  "memory_of vs =
     \<lparr>mem_size = 8 * length vs,
      mem_cells = (\<lambda>a. if a mod 8 = 0 \<and> a div 8 < length vs then Num (vs ! (a div 8)) else NaN)\<rparr>"

definition read_f64 :: "memory \<Rightarrow> nat \<Rightarrow> nat \<Rightarrow> f64 list" where
  "read_f64 m ptr n = map (\<lambda>k. mem_cells m (ptr + 8 * k)) [0..<n]"

text \<open>What a caller sees of a call: the value returned, or the trap, and \<open>n\<close> doubles
  of the memory from \<open>ptr\<close> on.\<close>

datatype outcome = Returned i32 "f64 list" | Trapped "f64 list"

definition observe :: "trap + (i32 \<times> memory) \<Rightarrow> nat \<Rightarrow> nat \<Rightarrow> outcome" where
  "observe r ptr n =
     (case r of Inl (Trap m) \<Rightarrow> Trapped (read_f64 m ptr n)
      | Inr (p, m) \<Rightarrow> Returned p (read_f64 m ptr n))"

text \<open>
  The default offset of the stride-only form, in the specification's words: 0 when the
  stride is not negative, \<open>(1 - N) * stride\<close> when it is.
\<close>

definition default_offset :: "i32 \<Rightarrow> i32 \<Rightarrow> i32" where
  "default_offset N stride = (if word_sless stride 0 then (1 - N) * stride else 0)"

text \<open>
  A reference implementation using scratch copies: the \<open>n\<close> elements of each vector are
  copied first, every pair of results is computed from the copies, and the results are
  written to the cells \<open>xa i\<close> and \<open>ya i\<close>.
\<close>

definition scratch_reference ::
  "(f64 \<Rightarrow> f64 \<Rightarrow> f64 \<times> f64) \<Rightarrow> (nat \<Rightarrow> nat) \<Rightarrow> (nat \<Rightarrow> nat) \<Rightarrow> nat \<Rightarrow> memory \<Rightarrow> memory" where
  "scratch_reference f xa ya n m =
     (let xs = map (\<lambda>i. mem_cells m (xa i)) [0..<n];
          ys = map (\<lambda>i. mem_cells m (ya i)) [0..<n]
      in m\<lparr>mem_cells :=
            foldl (\<lambda>c i. c(xa i := fst (f (xs ! i) (ys ! i)), ya i := snd (f (xs ! i) (ys ! i))))
              (mem_cells m) [0..<n]\<rparr>)"

text \<open>
  The cells of 8 bytes at the addresses \<open>as\<close> are pairwise the same cell or share no
  byte.
\<close>

definition cells_apart :: "nat list \<Rightarrow> bool" where
  "cells_apart as = (\<forall>a\<in>set as. \<forall>b\<in>set as. a = b \<or> a + 8 \<le> b \<or> b + 8 \<le> a)"

section \<open>The routine on arrays (\<^verbatim>\<open>Routine.prototype\<close> in \<^verbatim>\<open>index.mjs\<close>)\<close>

text \<open>
  \<^verbatim>\<open>Routine.prototype.ndarray\<close> converts the three arrays to pointers with
  \<^verbatim>\<open>arrays2ptrs\<close> and \<^verbatim>\<open>strided2object\<close>, calls \<^verbatim>\<open>Module.prototype.ndarray\<close>, copies
  the results back with \<^verbatim>\<open>readDataView\<close> where an array had to be copied, and returns
  \<open>y\<close>. \<^verbatim>\<open>Routine.prototype.main\<close> calls it with the offsets of \<^verbatim>\<open>stride2offset\<close>.
  These four functions belong to other packages: they are parameters here, over a host
  state \<open>'h\<close> that holds the module's memory and the arrays, and array handles \<open>'a\<close>.
  A collaborator that throws returns \<open>Inl\<close> with the host state it leaves.
\<close>

record strided_ptr =
  sp_ptr :: i32
  sp_stride :: i32
  sp_offset :: i32
  sp_copy :: bool
  sp_BYTES_PER_ELEMENT :: i32

record ('h, 'a) host =
  arrays2ptrs :: "'h \<Rightarrow> (i32 \<times> 'a \<times> i32 \<times> i32) list \<Rightarrow> 'h + ('h \<times> strided_ptr list)"
  readDataView :: "i32 \<Rightarrow> i32 \<Rightarrow> i32 \<Rightarrow> 'a \<Rightarrow> i32 \<Rightarrow> i32 \<Rightarrow> 'h \<Rightarrow> 'h + 'h"
  stride2offset :: "i32 \<Rightarrow> i32 \<Rightarrow> i32"
  view :: "'h \<Rightarrow> memory"
  set_view :: "memory \<Rightarrow> 'h \<Rightarrow> 'h"

definition Routine_ndarray ::
  "(rat \<Rightarrow> f64) \<Rightarrow> ('h, 'a) host \<Rightarrow> i32 \<Rightarrow> 'a \<Rightarrow> i32 \<Rightarrow> i32 \<Rightarrow> 'a \<Rightarrow> i32 \<Rightarrow> i32 \<Rightarrow> 'a \<Rightarrow> 'h
     \<Rightarrow> 'h + ('a \<times> 'h)" where
  "Routine_ndarray rnd H N x strideX offsetX y strideY offsetY param h =
     (case arrays2ptrs H h [(N, x, strideX, offsetX), (N, y, strideY, offsetY), (5, param, 1, 0)] of
        Inl h' \<Rightarrow> Inl h'
      | Inr (h1, ptrs) \<Rightarrow>
          (case ptrs of
             p0 # p1 # p2 # rest \<Rightarrow>
               (case Module_ndarray rnd N (sp_ptr p0) (sp_stride p0) (sp_offset p0)
                       (sp_ptr p1) (sp_stride p1) (sp_offset p1) (sp_ptr p2) (view H h1) of
                  Inl (Trap mt) \<Rightarrow> Inl (set_view H mt h1)
                | Inr (r, m') \<Rightarrow>
                    (case (if sp_copy p0
                           then readDataView H N (sp_stride p0 * sp_BYTES_PER_ELEMENT p0) (sp_ptr p0)
                                  x strideX offsetX (set_view H m' h1)
                           else Inr (set_view H m' h1)) of
                       Inl h' \<Rightarrow> Inl h'
                     | Inr h2 \<Rightarrow>
                         (case (if sp_copy p1
                                then readDataView H N (sp_stride p1 * sp_BYTES_PER_ELEMENT p1)
                                       (sp_ptr p1) y strideY offsetY h2
                                else Inr h2) of
                            Inl h' \<Rightarrow> Inl h'
                          | Inr h3 \<Rightarrow> Inr (y, h3))))
           | _ \<Rightarrow> Inl h1))"

definition Routine_main ::
  "(rat \<Rightarrow> f64) \<Rightarrow> ('h, 'a) host \<Rightarrow> i32 \<Rightarrow> 'a \<Rightarrow> i32 \<Rightarrow> 'a \<Rightarrow> i32 \<Rightarrow> 'a \<Rightarrow> 'h \<Rightarrow> 'h + ('a \<times> 'h)" where
  "Routine_main rnd H N x strideX y strideY param h =
     Routine_ndarray rnd H N x strideX (stride2offset H N strideX)
       y strideY (stride2offset H N strideY) param h"

text \<open>
  A host for the examples: every array is a view of the module's memory, given by its
  byte offset, so nothing is copied (\<^verbatim>\<open>copy\<close> is false) and the host state is the memory.
\<close>

definition view_host :: "(memory, i32) host" where
  "view_host =
     \<lparr>arrays2ptrs = (\<lambda>h objs. Inr (h, map (\<lambda>(n, a, s, off).
          \<lparr>sp_ptr = a, sp_stride = s, sp_offset = off, sp_copy = False,
           sp_BYTES_PER_ELEMENT = 8\<rparr>) objs)),
      readDataView = (\<lambda>n bs p a s off h. Inr h),
      stride2offset = default_offset,
      view = (\<lambda>h. h),
      set_view = (\<lambda>m h. m)\<rparr>"

section \<open>The loops as sequences of iterations\<close>

lemma andthen_simps [simp]: "andthen (Inl e) f = Inl e" "andthen (Inr v) f = f v"
  by (simp_all add: andthen_def)

lemma steps_map: "steps f (map h xs) m = steps (\<lambda>k. f (h k)) xs m"
  by (induction xs arbitrary: m) (simp_all add: andthen_def split: sum.splits)

lemma steps_Suc_upt: "steps f [0..<Suc n] m = andthen (f 0 m) (steps (\<lambda>k. f (Suc k)) [0..<n])"
proof -
  have "[0..<Suc n] = 0 # map Suc [0..<n]"
    by (simp add: upt_conv_Cons map_Suc_upt del: upt_Suc)
  then show ?thesis
    by (simp add: steps_map andthen_def split: sum.splits del: upt_Suc)
qed

lemma loop_eq_steps:
  "loop_eq body N strideX i ix m =
     steps (\<lambda>k. body (ix + of_nat k * strideX)) [0..<unat (N - i)] m"
proof (induction "unat (N - i)" arbitrary: i ix m)
  case 0
  then have "N = i" by (simp add: unat_eq_0)
  then show ?case by (simp add: loop_eq.simps loop_ne.simps)
next
  case (Suc n)
  then have ne: "N \<noteq> i" by auto
  then have "N - i \<noteq> 0" by simp
  then have "unat (N - i - 1) = unat (N - i) - 1" by (rule unat_minus_one)
  then have n: "n = unat (N - (i + 1))" using Suc.hyps(2) by (simp add: diff_diff_eq)
  have ih: "loop_eq body N strideX (i + 1) (strideX + ix) m' =
      steps (\<lambda>k. body (strideX + ix + of_nat k * strideX)) [0..<n] m'" for m'
    using Suc.hyps(1) [OF n] n by simp
  have shift: "(\<lambda>k. body (ix + of_nat (Suc k) * strideX)) = (\<lambda>k. body (strideX + ix + of_nat k * strideX))"
    by (simp add: algebra_simps)
  show ?case
    unfolding Suc.hyps(2) [symmetric] steps_Suc_upt shift
    using ne by (subst loop_eq.simps) (simp add: ih andthen_def split: sum.splits)
qed

lemma loop_ne_steps:
  "loop_ne body N strideX strideY i ix iy m =
     steps (\<lambda>k. body (ix + of_nat k * strideX) (iy + of_nat k * strideY)) [0..<unat (N - i)] m"
proof (induction "unat (N - i)" arbitrary: i ix iy m)
  case 0
  then have "N = i" by (simp add: unat_eq_0)
  then show ?case by (simp add: loop_eq.simps loop_ne.simps)
next
  case (Suc n)
  then have ne: "N \<noteq> i" by auto
  then have "N - i \<noteq> 0" by simp
  then have "unat (N - i - 1) = unat (N - i) - 1" by (rule unat_minus_one)
  then have n: "n = unat (N - (i + 1))" using Suc.hyps(2) by (simp add: diff_diff_eq)
  have ih: "loop_ne body N strideX strideY (i + 1) (strideX + ix) (strideY + iy) m' =
      steps (\<lambda>k. body (strideX + ix + of_nat k * strideX) (strideY + iy + of_nat k * strideY)) [0..<n] m'" for m'
    using Suc.hyps(1) [OF n] n by simp
  have shift: "(\<lambda>k. body (ix + of_nat (Suc k) * strideX) (iy + of_nat (Suc k) * strideY))
     = (\<lambda>k. body (strideX + ix + of_nat k * strideX) (strideY + iy + of_nat k * strideY))"
    by (simp add: algebra_simps)
  show ?case
    unfolding Suc.hyps(2) [symmetric] steps_Suc_upt shift
    using ne by (subst loop_ne.simps) (simp add: ih andthen_def split: sum.splits)
qed

lemma f64_add_commute: "f64_add rnd a b = f64_add rnd b a"
  by (cases a; cases b) (simp_all add: add.commute)

lemma f64_mul_commute: "f64_mul rnd a b = f64_mul rnd b a"
  by (cases a; cases b) (simp_all add: mult.commute)

lemma body_neg_step:
  "body_neg rnd h11 h21 h12 h22 X Y ix iy =
     step_at (full_matrix rnd h11 h21 h12 h22) (unat (X + push_bit 3 ix)) (unat (Y + push_bit 3 iy))"
  by (simp add: fun_eq_iff body_neg_def step_at_def update_pair_def full_matrix_def f64_load_def f64_store_def Let_def
      f64_mul_commute [of rnd h12] f64_mul_commute [of rnd h22])

lemma body_zero_step:
  "body_zero rnd h21 h12 X Y ix iy =
     step_at (unit_diagonal rnd h21 h12) (unat (X + push_bit 3 ix)) (unat (Y + push_bit 3 iy))"
  by (auto simp add: fun_eq_iff body_zero_def step_at_def update_pair_def unit_diagonal_def f64_load_def f64_store_def Let_def
      f64_add_commute [of rnd "f64_mul rnd _ h12"] f64_add_commute [of rnd "f64_mul rnd _ h21"])

lemma body_pos_step:
  "body_pos rnd h11 h22 X Y ix iy =
     step_at (unit_antidiagonal rnd h11 h22) (unat (X + push_bit 3 ix)) (unat (Y + push_bit 3 iy))"
  by (simp add: fun_eq_iff body_pos_def step_at_def update_pair_def unit_antidiagonal_def f64_load_def f64_store_def Let_def)

lemma body_eq_neg_step: "body_eq_neg rnd h11 h21 h12 h22 X Y ix = body_neg rnd h11 h21 h12 h22 X Y ix ix"
  by (simp add: body_eq_neg_def body_neg_def fun_eq_iff)

lemma body_eq_zero_step: "body_eq_zero rnd h21 h12 X Y ix = body_zero rnd h21 h12 X Y ix ix"
  by (simp add: body_eq_zero_def body_zero_def fun_eq_iff)

lemma body_eq_pos_step: "body_eq_pos rnd h11 h22 X Y ix = body_pos rnd h11 h22 X Y ix ix"
  by (simp add: body_eq_pos_def body_pos_def fun_eq_iff)

lemma f64_load_param:
  "unat param + 40 \<le> mem_size m \<Longrightarrow> k < 5 \<Longrightarrow> f64_load m param (8 * k) = Inr (param_at m param k)"
  by (simp add: f64_load_def param_at_def)

lemma kernel_steps:
  assumes N: "\<not> word_sle N 0"
    and P: "unat param + 40 \<le> mem_size m"
    and flag: "\<not> f64_eq (param_at m param 0) (Num (- 2))"
  shows "c_drotm_ndarray rnd N X strideX offsetX Y strideY offsetY param m =
     steps (\<lambda>i. step_at
         (kernel_rotation rnd (param_at m param 0) (param_at m param 1) (param_at m param 2)
            (param_at m param 3) (param_at m param 4))
         (elem_addr X strideX offsetX i) (kernel_y_addr Y strideX offsetX strideY offsetY i))
       [0..<unat N] m"
proof -
  have l: "f64_load m param 0 = Inr (param_at m param 0)"
    "f64_load m param 8 = Inr (param_at m param 1)"
    "f64_load m param 16 = Inr (param_at m param 2)"
    "f64_load m param 24 = Inr (param_at m param 3)"
    "f64_load m param 32 = Inr (param_at m param 4)"
    using f64_load_param [OF P, of 0] f64_load_param [OF P, of 1] f64_load_param [OF P, of 2]
      f64_load_param [OF P, of 3] f64_load_param [OF P, of 4] by simp_all
  have ky: "kernel_y_addr Y strideX offsetX strideY offsetY =
      (if strideX = strideY \<and> \<not> word_sle strideX 0 then elem_addr Y strideX offsetX
       else elem_addr Y strideY offsetY)"
    by (auto simp add: fun_eq_iff kernel_y_addr_def)
  have ea: "elem_addr p s off = (\<lambda>i. unat (p + push_bit 3 (off + of_nat i * s)))" for p s off
    by (simp add: fun_eq_iff elem_addr_def)
  show ?thesis
    using N flag
    by (auto simp add: c_drotm_ndarray_def l loop_eq_steps loop_ne_steps kernel_rotation_def
        ky ea body_eq_neg_step body_eq_zero_step body_eq_pos_step
        body_neg_step body_zero_step body_pos_step)
qed

section \<open>Iterations inside the memory, and on distinct cells\<close>

text \<open>When every cell of the call lies inside the memory, no iteration traps.\<close>

lemma update_pair_size [simp]: "mem_size (update_pair f xa ya m) = mem_size m"
  by (simp add: update_pair_def)

lemma foldl_update_pair_size [simp]:
  "mem_size (foldl (\<lambda>m i. update_pair f (xa i) (ya i) m) m is) = mem_size m"
  by (induction "is" arbitrary: m) simp_all

lemma steps_in_bounds:
  "(\<And>i. i \<in> set is \<Longrightarrow> xa i + 8 \<le> mem_size m \<and> ya i + 8 \<le> mem_size m) \<Longrightarrow>
     steps (\<lambda>i. step_at f (xa i) (ya i)) is m =
       Inr (foldl (\<lambda>m i. update_pair f (xa i) (ya i) m) m is)"
proof (induction "is" arbitrary: m)
  case Nil
  show ?case by simp
next
  case (Cons i "is")
  have "steps (\<lambda>i. step_at f (xa i) (ya i)) is (update_pair f (xa i) (ya i) m) =
      Inr (foldl (\<lambda>m i. update_pair f (xa i) (ya i) m) (update_pair f (xa i) (ya i) m) is)"
    by (rule Cons.IH) (simp add: Cons.prems)
  moreover have "step_at f (xa i) (ya i) m = Inr (update_pair f (xa i) (ya i) m)"
    using Cons.prems [of i] by (simp add: step_at_def)
  ultimately show ?case by simp
qed

lemma kernel_in_bounds:
  assumes N: "\<not> word_sle N 0"
    and P: "unat param + 40 \<le> mem_size m"
    and flag: "\<not> f64_eq (param_at m param 0) (Num (- 2))"
    and B: "\<And>i. i < unat N \<Longrightarrow> elem_addr X strideX offsetX i + 8 \<le> mem_size m
                \<and> kernel_y_addr Y strideX offsetX strideY offsetY i + 8 \<le> mem_size m"
  shows "c_drotm_ndarray rnd N X strideX offsetX Y strideY offsetY param m =
     Inr (foldl (\<lambda>m' i. update_pair
         (kernel_rotation rnd (param_at m param 0) (param_at m param 1) (param_at m param 2)
            (param_at m param 3) (param_at m param 4))
         (elem_addr X strideX offsetX i) (kernel_y_addr Y strideX offsetX strideY offsetY i) m')
       m [0..<unat N])"
  unfolding kernel_steps [OF N P flag]
  by (rule steps_in_bounds) (simp add: B)

text \<open>
  When no cell is addressed twice, every iteration reads what the memory held before the
  call, and the iterations amount to the reference with scratch copies.
\<close>

lemma foldl_update_pair_snapshot:
  assumes "distinct (map xa is @ map ya is)"
    and "\<And>j. j \<in> set is \<Longrightarrow> mem_cells m (xa j) = s (xa j) \<and> mem_cells m (ya j) = s (ya j)"
  shows "foldl (\<lambda>m i. update_pair f (xa i) (ya i) m) m is =
     m\<lparr>mem_cells :=
         foldl (\<lambda>c i. c(xa i := fst (f (s (xa i)) (s (ya i))), ya i := snd (f (s (xa i)) (s (ya i)))))
           (mem_cells m) is\<rparr>"
  using assms
proof (induction "is" arbitrary: m)
  case Nil
  show ?case by simp
next
  case (Cons i "is")
  let ?m1 = "update_pair f (xa i) (ya i) m"
  have d: "distinct (map xa is @ map ya is)"
    using Cons.prems(1) by auto
  have a: "mem_cells ?m1 (xa j) = s (xa j) \<and> mem_cells ?m1 (ya j) = s (ya j)" if "j \<in> set is" for j
  proof -
    have "xa j \<noteq> xa i" "xa j \<noteq> ya i" "ya j \<noteq> xa i" "ya j \<noteq> ya i"
      using Cons.prems(1) that by (auto simp add: image_iff)
    then show ?thesis
      using Cons.prems(2) [of j] that by (simp add: update_pair_def)
  qed
  have cells1: "mem_cells ?m1 = (mem_cells m)
      (xa i := fst (f (s (xa i)) (s (ya i))), ya i := snd (f (s (xa i)) (s (ya i))))"
    using Cons.prems(2) [of i] by (simp add: update_pair_def)
  have upd1: "?m1\<lparr>mem_cells := c\<rparr> = m\<lparr>mem_cells := c\<rparr>" for c
    by (simp add: update_pair_def)
  have "foldl (\<lambda>m i. update_pair f (xa i) (ya i) m) m (i # is) =
      foldl (\<lambda>m i. update_pair f (xa i) (ya i) m) ?m1 is"
    by simp
  also have "\<dots> = ?m1\<lparr>mem_cells :=
         foldl (\<lambda>c i. c(xa i := fst (f (s (xa i)) (s (ya i))), ya i := snd (f (s (xa i)) (s (ya i)))))
           (mem_cells ?m1) is\<rparr>"
    using d a by (rule Cons.IH)
  also have "\<dots> = m\<lparr>mem_cells :=
         foldl (\<lambda>c i. c(xa i := fst (f (s (xa i)) (s (ya i))), ya i := snd (f (s (xa i)) (s (ya i)))))
           (mem_cells ?m1) is\<rparr>"
    by (rule upd1)
  also have "\<dots> = m\<lparr>mem_cells :=
         foldl (\<lambda>c i. c(xa i := fst (f (s (xa i)) (s (ya i))), ya i := snd (f (s (xa i)) (s (ya i)))))
           (mem_cells m) (i # is)\<rparr>"
    by (simp only: cells1 foldl.simps)
  finally show ?case .
qed

lemma scratch_reference_snapshot:
  "scratch_reference f xa ya n m =
     m\<lparr>mem_cells :=
         foldl (\<lambda>c i. c(xa i := fst (f (mem_cells m (xa i)) (mem_cells m (ya i))),
                        ya i := snd (f (mem_cells m (xa i)) (mem_cells m (ya i)))))
           (mem_cells m) [0..<n]\<rparr>"
proof -
  have "foldl (\<lambda>c i. c(xa i := fst (f (map (\<lambda>i. mem_cells m (xa i)) [0..<n] ! i)
                                       (map (\<lambda>i. mem_cells m (ya i)) [0..<n] ! i)),
                        ya i := snd (f (map (\<lambda>i. mem_cells m (xa i)) [0..<n] ! i)
                                       (map (\<lambda>i. mem_cells m (ya i)) [0..<n] ! i))))
          (mem_cells m) [0..<n]
      = foldl (\<lambda>c i. c(xa i := fst (f (mem_cells m (xa i)) (mem_cells m (ya i))),
                        ya i := snd (f (mem_cells m (xa i)) (mem_cells m (ya i)))))
          (mem_cells m) [0..<n]"
    by (rule foldl_cong) simp_all
  then show ?thesis
    by (simp add: scratch_reference_def Let_def)
qed

lemma steps_scratch_reference:
  assumes "\<And>i. i < n \<Longrightarrow> xa i + 8 \<le> mem_size m \<and> ya i + 8 \<le> mem_size m"
    and "distinct (map xa [0..<n] @ map ya [0..<n])"
  shows "steps (\<lambda>i. step_at f (xa i) (ya i)) [0..<n] m = Inr (scratch_reference f xa ya n m)"
proof -
  have "steps (\<lambda>i. step_at f (xa i) (ya i)) [0..<n] m =
      Inr (foldl (\<lambda>m i. update_pair f (xa i) (ya i) m) m [0..<n])"
    by (rule steps_in_bounds) (simp add: assms(1))
  moreover have "foldl (\<lambda>m i. update_pair f (xa i) (ya i) m) m [0..<n] =
      scratch_reference f xa ya n m"
    unfolding scratch_reference_snapshot
    by (rule foldl_update_pair_snapshot [OF assms(2)]) simp
  ultimately show ?thesis by simp
qed

lemma kernel_y_addr_spec:
  "(strideX = strideY \<and> \<not> word_sle strideX 0 \<longrightarrow> offsetX = offsetY) \<Longrightarrow>
     kernel_y_addr Y strideX offsetX strideY offsetY = elem_addr Y strideY offsetY"
  by (auto simp add: kernel_y_addr_def fun_eq_iff)

text \<open>
  The address formula itself is symmetric: a walk of \<open>n\<close> elements with stride \<open>- s\<close> from
  the offset of the last element meets the addresses of the walk with stride \<open>s\<close> in
  reverse order.
\<close>

lemma elem_addr_reverse:
  assumes "i < n"
  shows "elem_addr p (- s) (off + of_nat (n - 1) * s) i = elem_addr p s off (n - 1 - i)"
proof -
  from assms have "n - 1 = (n - 1 - i) + i" by simp
  then have "(of_nat (n - 1) :: i32) = of_nat (n - 1 - i) + of_nat i"
    by (metis of_nat_add)
  then show ?thesis
    by (simp add: elem_addr_def algebra_simps)
qed

section \<open>The claims\<close>

text \<open>
  C6. The documented example: \<open>N = 5\<close>, \<open>x = [1,2,3,4,5]\<close> at byte 0,
  \<open>y = [1,1,1,1,1]\<close> at byte 40, \<open>param = [0,0,2,-3,0]\<close> at byte 80, both strides 1 and
  both offsets 0. Either form returns \<open>yptr\<close> and leaves \<open>x = [-2,-1,0,1,2]\<close> and
  \<open>y = [3,5,7,9,11]\<close>. Every intermediate result is a small integer, which the rounding
  leaves as it is: the rounding is \<open>Num\<close> here.
\<close>

theorem scenario_1:
  "observe (Module_ndarray Num 5 0 1 0 40 1 0 80
              (memory_of [1, 2, 3, 4, 5, 1, 1, 1, 1, 1, 0, 0, 2, - 3, 0])) 0 10
     = Returned 40 (map Num [- 2, - 1, 0, 1, 2, 3, 5, 7, 9, 11])
   \<and> observe (Module_main Num 5 0 1 40 1 80
              (memory_of [1, 2, 3, 4, 5, 1, 1, 1, 1, 1, 0, 0, 2, - 3, 0])) 0 10
     = Returned 40 (map Num [- 2, - 1, 0, 1, 2, 3, 5, 7, 9, 11])"
  by code_simp

text \<open>The two early exits of the kernel.\<close>

lemma c_drotm_ndarray_noop:
  "word_sle N 0 \<or> f64_load m param 0 = Inr (Num (- 2)) \<Longrightarrow>
     c_drotm_ndarray rnd N X strideX offsetX Y strideY offsetY param m = Inr m"
  by (auto simp add: c_drotm_ndarray_def)

text \<open>
  C2. When \<open>N \<le> 0\<close> (zero or negative), or when the double at \<open>param\<close> is \<open>-2\<close>, whatever
  \<open>N\<close> and the other parameters are, both forms return \<open>yptr\<close> without a trap and leave
  the whole memory, hence \<open>x\<close> and \<open>y\<close>, as it was.
\<close>

theorem noop_unchanged:
  assumes "word_sle N 0 \<or> f64_load m pptr 0 = Inr (Num (- 2))"
  shows "Module_ndarray rnd N xptr strideX offsetX yptr strideY offsetY pptr m = Inr (yptr, m)
    \<and> Module_main rnd N xptr strideX yptr strideY pptr m = Inr (yptr, m)"
  using assms by (simp add: Module_ndarray_def Module_main_def c_drotm_def c_drotm_ndarray_noop)

theorem noop_unchanged_witness:
  "Module_ndarray Num 0 0 1 0 40 1 0 80 (memory_of [1, 2, 3, 4, 5, 6, 7, 8, 9, 10, 0, 0, 2, - 3, 0])
     = Inr (40, memory_of [1, 2, 3, 4, 5, 6, 7, 8, 9, 10, 0, 0, 2, - 3, 0])
   \<and> Module_main Num (- 1) 0 1 40 1 80 (memory_of [1, 2, 3, 4, 5, 6, 7, 8, 9, 10, 0, 0, 2, - 3, 0])
     = Inr (40, memory_of [1, 2, 3, 4, 5, 6, 7, 8, 9, 10, 0, 0, 2, - 3, 0])
   \<and> Module_ndarray Num 3 0 1 0 24 1 0 48 (memory_of [1, 2, 3, 4, 5, 6, - 2, 7, 8, 9, 10])
     = Inr (24, memory_of [1, 2, 3, 4, 5, 6, - 2, 7, 8, 9, 10])"
proof -
  have a: "word_sle (0 :: i32) 0 \<or> f64_load m p 0 = Inr (Num (- 2))" for m p
    by simp
  have b: "word_sle (- 1 :: i32) 0 \<or> f64_load m p 0 = Inr (Num (- 2))" for m p
    by simp
  have c: "word_sle (3 :: i32) 0
      \<or> f64_load (memory_of [1, 2, 3, 4, 5, 6, - 2, 7, 8, 9, 10]) 48 0 = Inr (Num (- 2))"
    by (simp add: f64_load_def memory_of_def)
  have "Module_ndarray Num 0 0 1 0 40 1 0 80
          (memory_of [1, 2, 3, 4, 5, 6, 7, 8, 9, 10, 0, 0, 2, - 3, 0])
        = Inr (40, memory_of [1, 2, 3, 4, 5, 6, 7, 8, 9, 10, 0, 0, 2, - 3, 0])"
    using noop_unchanged [OF a] by (rule conjunct1)
  moreover have "Module_main Num (- 1) 0 1 40 1 80
          (memory_of [1, 2, 3, 4, 5, 6, 7, 8, 9, 10, 0, 0, 2, - 3, 0])
        = Inr (40, memory_of [1, 2, 3, 4, 5, 6, 7, 8, 9, 10, 0, 0, 2, - 3, 0])"
    using noop_unchanged [OF b] by (rule conjunct2)
  moreover have "Module_ndarray Num 3 0 1 0 24 1 0 48 (memory_of [1, 2, 3, 4, 5, 6, - 2, 7, 8, 9, 10])
        = Inr (24, memory_of [1, 2, 3, 4, 5, 6, - 2, 7, 8, 9, 10])"
    using noop_unchanged [OF c] by (rule conjunct1)
  ultimately show ?thesis by blast
qed

text \<open>
  C4. The stride-only form is the explicit-offset form at the default offsets
  (\<open>(1 - N) * stride\<close> for a negative stride, 0 otherwise): the same result, trap or
  memory, for every input.
\<close>

theorem main_default_offsets:
  "Module_main rnd N xptr strideX yptr strideY pptr m =
     Module_ndarray rnd N xptr strideX (default_offset N strideX)
       yptr strideY (default_offset N strideY) pptr m"
proof -
  have "(if word_sle s 0 then (1 - N) * s else 0) = default_offset N s" for s :: i32
    by (auto simp add: default_offset_def word_sle_eq word_sless_alt signed_eq_0_iff)
  then show ?thesis
    by (simp add: Module_main_def Module_ndarray_def c_drotm_def Let_def)
qed

text \<open>
  What the kernel computes for the flags \<open>-1\<close>, \<open>0\<close> and \<open>1\<close>: with \<open>w\<close> and \<open>z\<close> the
  values of its \<open>x\<close> cell and of its \<open>y\<close> cell before the iteration, the formulas of
  section 4.1. The \<open>y\<close> cell is \<open>kernel_y_addr\<close>, the one the bytecode addresses.
\<close>

lemma kernel_rotation_by_flag:
  assumes "\<not> word_sle N 0" and "unat param + 40 \<le> mem_size m"
  shows "(param_at m param 0 = Num (- 1) \<longrightarrow>
      c_drotm_ndarray rnd N X strideX offsetX Y strideY offsetY param m =
        steps (\<lambda>i. step_at
            (full_matrix rnd (param_at m param 1) (param_at m param 2) (param_at m param 3)
               (param_at m param 4))
            (elem_addr X strideX offsetX i) (kernel_y_addr Y strideX offsetX strideY offsetY i))
          [0..<unat N] m)
    \<and> (param_at m param 0 = Num 0 \<longrightarrow>
      c_drotm_ndarray rnd N X strideX offsetX Y strideY offsetY param m =
        steps (\<lambda>i. step_at
            (unit_diagonal rnd (param_at m param 2) (param_at m param 3))
            (elem_addr X strideX offsetX i) (kernel_y_addr Y strideX offsetX strideY offsetY i))
          [0..<unat N] m)
    \<and> (param_at m param 0 = Num 1 \<longrightarrow>
      c_drotm_ndarray rnd N X strideX offsetX Y strideY offsetY param m =
        steps (\<lambda>i. step_at
            (unit_antidiagonal rnd (param_at m param 1) (param_at m param 4))
            (elem_addr X strideX offsetX i) (kernel_y_addr Y strideX offsetX strideY offsetY i))
          [0..<unat N] m)"
proof (intro conjI impI)
  assume f: "param_at m param 0 = Num (- 1)"
  then have "\<not> f64_eq (param_at m param 0) (Num (- 2))" by simp
  from kernel_steps [OF assms this] f
  show "c_drotm_ndarray rnd N X strideX offsetX Y strideY offsetY param m =
        steps (\<lambda>i. step_at
            (full_matrix rnd (param_at m param 1) (param_at m param 2) (param_at m param 3)
               (param_at m param 4))
            (elem_addr X strideX offsetX i) (kernel_y_addr Y strideX offsetX strideY offsetY i))
          [0..<unat N] m"
    by (simp add: kernel_rotation_def)
next
  assume f: "param_at m param 0 = Num 0"
  then have "\<not> f64_eq (param_at m param 0) (Num (- 2))" by simp
  from kernel_steps [OF assms this] f
  show "c_drotm_ndarray rnd N X strideX offsetX Y strideY offsetY param m =
        steps (\<lambda>i. step_at
            (unit_diagonal rnd (param_at m param 2) (param_at m param 3))
            (elem_addr X strideX offsetX i) (kernel_y_addr Y strideX offsetX strideY offsetY i))
          [0..<unat N] m"
    by (simp add: kernel_rotation_def)
next
  assume f: "param_at m param 0 = Num 1"
  then have "\<not> f64_eq (param_at m param 0) (Num (- 2))" by simp
  from kernel_steps [OF assms this] f
  show "c_drotm_ndarray rnd N X strideX offsetX Y strideY offsetY param m =
        steps (\<lambda>i. step_at
            (unit_antidiagonal rnd (param_at m param 1) (param_at m param 4))
            (elem_addr X strideX offsetX i) (kernel_y_addr Y strideX offsetX strideY offsetY i))
          [0..<unat N] m"
    by (simp add: kernel_rotation_def)
qed

text \<open>
  Outside equal positive strides with different offsets the \<open>y\<close> cell is the
  specification's, at index \<open>offsetY + i * strideY\<close>.
\<close>

lemma rotation_by_flag_at_spec_cells:
  assumes "\<not> word_sle N 0" and "unat param + 40 \<le> mem_size m"
    and "strideX = strideY \<and> \<not> word_sle strideX 0 \<longrightarrow> offsetX = offsetY"
  shows "(param_at m param 0 = Num (- 1) \<longrightarrow>
      c_drotm_ndarray rnd N X strideX offsetX Y strideY offsetY param m =
        steps (\<lambda>i. step_at
            (full_matrix rnd (param_at m param 1) (param_at m param 2) (param_at m param 3)
               (param_at m param 4))
            (elem_addr X strideX offsetX i) (elem_addr Y strideY offsetY i))
          [0..<unat N] m)
    \<and> (param_at m param 0 = Num 0 \<longrightarrow>
      c_drotm_ndarray rnd N X strideX offsetX Y strideY offsetY param m =
        steps (\<lambda>i. step_at
            (unit_diagonal rnd (param_at m param 2) (param_at m param 3))
            (elem_addr X strideX offsetX i) (elem_addr Y strideY offsetY i))
          [0..<unat N] m)
    \<and> (param_at m param 0 = Num 1 \<longrightarrow>
      c_drotm_ndarray rnd N X strideX offsetX Y strideY offsetY param m =
        steps (\<lambda>i. step_at
            (unit_antidiagonal rnd (param_at m param 1) (param_at m param 4))
            (elem_addr X strideX offsetX i) (elem_addr Y strideY offsetY i))
          [0..<unat N] m)"
  using kernel_rotation_by_flag [OF assms(1,2), of rnd X strideX offsetX Y strideY offsetY]
  by (simp only: kernel_y_addr_spec [OF assms(3)])

text \<open>
  C1. With \<open>N = 2\<close>, \<open>x = [1,2,3,4,5]\<close> at byte 0, \<open>y = [6,7,8,9,10]\<close> at byte 40,
  \<open>[h11, h21, h12, h22] = [2,3,4,5]\<close>, both strides 1, \<open>offsetX = 0\<close> and \<open>offsetY = 2\<close>,
  the first iteration has \<open>w = x[0] = 1\<close> and \<open>z = y[2] = 8\<close>, for which the formulas give
  \<open>(34, 43)\<close> for \<open>flag = -1\<close>, \<open>(33, 11)\<close> for \<open>flag = 0\<close> and \<open>(10, 39)\<close> for \<open>flag = 1\<close>.
  The kernel takes \<open>z = y[0] = 6\<close> instead, on its path for equal positive strides: it
  leaves \<open>x[0] = 26\<close>, \<open>25\<close> and \<open>8\<close>, writes the second result to \<open>y[0]\<close> and leaves
  \<open>y[2]\<close> as it was.
\<close>

theorem formulas_applied_to_other_y_cell:
  "full_matrix Num (Num 2) (Num 3) (Num 4) (Num 5) (Num 1) (Num 8) = (Num 34, Num 43)
   \<and> observe (Module_ndarray Num 2 0 1 0 40 1 2 80
        (memory_of [1, 2, 3, 4, 5, 6, 7, 8, 9, 10, - 1, 2, 3, 4, 5])) 0 10
     = Returned 40 (map Num [26, 32, 3, 4, 5, 33, 41, 8, 9, 10])
   \<and> unit_diagonal Num (Num 3) (Num 4) (Num 1) (Num 8) = (Num 33, Num 11)
   \<and> observe (Module_ndarray Num 2 0 1 0 40 1 2 80
        (memory_of [1, 2, 3, 4, 5, 6, 7, 8, 9, 10, 0, 2, 3, 4, 5])) 0 10
     = Returned 40 (map Num [25, 30, 3, 4, 5, 9, 13, 8, 9, 10])
   \<and> unit_antidiagonal Num (Num 2) (Num 5) (Num 1) (Num 8) = (Num 10, Num 39)
   \<and> observe (Module_ndarray Num 2 0 1 0 40 1 2 80
        (memory_of [1, 2, 3, 4, 5, 6, 7, 8, 9, 10, 1, 2, 3, 4, 5])) 0 10
     = Returned 40 (map Num [8, 11, 3, 4, 5, 29, 33, 8, 9, 10])"
  by code_simp

text \<open>
  C10. For every flag other than \<open>-2\<close>, also outside \<open>{-1, 0, 1}\<close> and also NaN, a call
  with \<open>N > 0\<close> whose cells lie inside the memory returns without a trap, and the
  transformation is chosen by sign: the full matrix when \<open>flag < 0\<close>, the unit diagonal
  when \<open>flag = 0\<close>, and the formulas of \<open>flag = 1\<close> for every other value, which
  includes NaN since both comparisons with NaN are false.
\<close>

theorem other_flags_by_sign:
  assumes "\<not> word_sle N 0" and "unat param + 40 \<le> mem_size m"
    and "\<not> f64_eq (param_at m param 0) (Num (- 2))"
    and "\<forall>i<unat N. elem_addr X strideX offsetX i + 8 \<le> mem_size m
            \<and> kernel_y_addr Y strideX offsetX strideY offsetY i + 8 \<le> mem_size m"
  shows "c_drotm_ndarray rnd N X strideX offsetX Y strideY offsetY param m =
     Inr (foldl (\<lambda>m' i. update_pair
         (if f64_lt (param_at m param 0) (Num 0)
          then full_matrix rnd (param_at m param 1) (param_at m param 2) (param_at m param 3)
                 (param_at m param 4)
          else if f64_eq (param_at m param 0) (Num 0)
          then unit_diagonal rnd (param_at m param 2) (param_at m param 3)
          else unit_antidiagonal rnd (param_at m param 1) (param_at m param 4))
         (elem_addr X strideX offsetX i) (kernel_y_addr Y strideX offsetX strideY offsetY i) m')
       m [0..<unat N])"
  using kernel_in_bounds [OF assms(1,2,3), of X strideX offsetX Y strideY offsetY rnd] assms(4)
  by (simp add: kernel_rotation_def)

text \<open>
  C5, as amended. Whatever cells \<open>x\<close> and \<open>y\<close> share, each iteration computes both of
  its results from the two values read at its start (\<open>step_at\<close>: both reads precede
  both writes). The call equals the reference implementation with scratch copies when
  the cells lie inside the memory, no cell is addressed by two of the \<open>2N\<close> element
  accesses and no two cells partly overlap, as with interleaved views of doubles; the
  statement is made outside equal positive strides with different offsets.
\<close>

theorem aliasing_pre_update_values:
  assumes "\<not> word_sle N 0" and "unat param + 40 \<le> mem_size m"
    and "\<not> f64_eq (param_at m param 0) (Num (- 2))"
  shows "c_drotm_ndarray rnd N X strideX offsetX Y strideY offsetY param m =
        steps (\<lambda>i. step_at
            (kernel_rotation rnd (param_at m param 0) (param_at m param 1) (param_at m param 2)
               (param_at m param 3) (param_at m param 4))
            (elem_addr X strideX offsetX i) (kernel_y_addr Y strideX offsetX strideY offsetY i))
          [0..<unat N] m
    \<and> ((\<forall>i<unat N. elem_addr X strideX offsetX i + 8 \<le> mem_size m
                      \<and> elem_addr Y strideY offsetY i + 8 \<le> mem_size m)
        \<and> distinct (map (elem_addr X strideX offsetX) [0..<unat N]
                      @ map (elem_addr Y strideY offsetY) [0..<unat N])
        \<and> cells_apart (map (elem_addr X strideX offsetX) [0..<unat N]
                      @ map (elem_addr Y strideY offsetY) [0..<unat N])
        \<and> (strideX = strideY \<and> \<not> word_sle strideX 0 \<longrightarrow> offsetX = offsetY)
       \<longrightarrow> c_drotm_ndarray rnd N X strideX offsetX Y strideY offsetY param m =
             Inr (scratch_reference
               (kernel_rotation rnd (param_at m param 0) (param_at m param 1) (param_at m param 2)
                  (param_at m param 3) (param_at m param 4))
               (elem_addr X strideX offsetX) (elem_addr Y strideY offsetY) (unat N) m))"
proof (intro conjI impI)
  show k: "c_drotm_ndarray rnd N X strideX offsetX Y strideY offsetY param m =
        steps (\<lambda>i. step_at
            (kernel_rotation rnd (param_at m param 0) (param_at m param 1) (param_at m param 2)
               (param_at m param 3) (param_at m param 4))
            (elem_addr X strideX offsetX i) (kernel_y_addr Y strideX offsetX strideY offsetY i))
          [0..<unat N] m"
    by (rule kernel_steps [OF assms])
  assume h: "(\<forall>i<unat N. elem_addr X strideX offsetX i + 8 \<le> mem_size m
                      \<and> elem_addr Y strideY offsetY i + 8 \<le> mem_size m)
        \<and> distinct (map (elem_addr X strideX offsetX) [0..<unat N]
                      @ map (elem_addr Y strideY offsetY) [0..<unat N])
        \<and> cells_apart (map (elem_addr X strideX offsetX) [0..<unat N]
                      @ map (elem_addr Y strideY offsetY) [0..<unat N])
        \<and> (strideX = strideY \<and> \<not> word_sle strideX 0 \<longrightarrow> offsetX = offsetY)"
  then have y: "kernel_y_addr Y strideX offsetX strideY offsetY = elem_addr Y strideY offsetY"
    by (intro kernel_y_addr_spec) blast
  show "c_drotm_ndarray rnd N X strideX offsetX Y strideY offsetY param m =
             Inr (scratch_reference
               (kernel_rotation rnd (param_at m param 0) (param_at m param 1) (param_at m param 2)
                  (param_at m param 3) (param_at m param 4))
               (elem_addr X strideX offsetX) (elem_addr Y strideY offsetY) (unat N) m)"
    unfolding k y
    by (rule steps_scratch_reference) (use h in simp_all)
qed

text \<open>
  C7. Every call that returns, returns the handle of the second vector: the module
  forms return the \<open>yptr\<close> they were given, the routine forms return the array \<open>y\<close>
  itself, whatever the collaborators are; and the calls with \<open>N \<le> 0\<close> or \<open>flag = -2\<close> do
  return, with \<open>yptr\<close>.
\<close>

theorem returns_second_vector:
  "(Module_ndarray rnd N xptr strideX offsetX yptr strideY offsetY pptr m = Inr (r, m') \<longrightarrow> r = yptr)
   \<and> (Module_main rnd N xptr strideX yptr strideY pptr m = Inr (r, m') \<longrightarrow> r = yptr)
   \<and> (Routine_ndarray rnd H N x strideX offsetX y strideY offsetY param h = Inr (a, h') \<longrightarrow> a = y)
   \<and> (Routine_main rnd H N x strideX y strideY param h = Inr (a, h') \<longrightarrow> a = y)
   \<and> (word_sle N 0 \<or> f64_load m pptr 0 = Inr (Num (- 2)) \<longrightarrow>
        Module_ndarray rnd N xptr strideX offsetX yptr strideY offsetY pptr m = Inr (yptr, m)
        \<and> Module_main rnd N xptr strideX yptr strideY pptr m = Inr (yptr, m))"
  by (auto simp add: Module_ndarray_def Module_main_def Routine_main_def Routine_ndarray_def
      andthen_def c_drotm_def c_drotm_ndarray_noop
      split: sum.splits list.splits if_splits prod.splits trap.splits)

text \<open>The documented example returns 40, the \<open>yptr\<close> it was given, in all four forms.\<close>

theorem returns_second_vector_witness:
  "(\<exists>m'. Module_ndarray Num 5 0 1 0 40 1 0 80
             (memory_of [1, 2, 3, 4, 5, 1, 1, 1, 1, 1, 0, 0, 2, - 3, 0]) = Inr (40, m'))
   \<and> (\<exists>m'. Module_main Num 5 0 1 40 1 80
             (memory_of [1, 2, 3, 4, 5, 1, 1, 1, 1, 1, 0, 0, 2, - 3, 0]) = Inr (40, m'))
   \<and> (\<exists>h'. Routine_ndarray Num view_host 5 0 1 0 40 1 0 80
             (memory_of [1, 2, 3, 4, 5, 1, 1, 1, 1, 1, 0, 0, 2, - 3, 0]) = Inr (40, h'))
   \<and> (\<exists>h'. Routine_main Num view_host 5 0 1 40 1 80
             (memory_of [1, 2, 3, 4, 5, 1, 1, 1, 1, 1, 0, 0, 2, - 3, 0]) = Inr (40, h'))
   \<and> Module_ndarray Num 0 0 1 0 40 1 0 80
        (memory_of [1, 2, 3, 4, 5, 1, 1, 1, 1, 1, 0, 0, 2, - 3, 0])
      = Inr (40, memory_of [1, 2, 3, 4, 5, 1, 1, 1, 1, 1, 0, 0, 2, - 3, 0])"
proof -
  let ?M = "memory_of [1, 2, 3, 4, 5, 1, 1, 1, 1, 1, 0, 0, 2, - 3, 0]"
  note T = returns_second_vector
  have "case Module_ndarray Num 5 0 1 0 40 1 0 80 ?M of Inl e \<Rightarrow> False | Inr p \<Rightarrow> True"
    by code_simp
  then obtain r1 m1 where 1: "Module_ndarray Num 5 0 1 0 40 1 0 80 ?M = Inr (r1, m1)"
    by (auto split: sum.splits)
  have "Module_ndarray Num 5 0 1 0 40 1 0 80 ?M = Inr (r1, m1) \<longrightarrow> r1 = 40"
    using T by (rule conjunct1)
  with 1 have c1: "\<exists>m'. Module_ndarray Num 5 0 1 0 40 1 0 80 ?M = Inr (40, m')" by auto
  have "case Module_main Num 5 0 1 40 1 80 ?M of Inl e \<Rightarrow> False | Inr p \<Rightarrow> True"
    by code_simp
  then obtain r2 m2 where 2: "Module_main Num 5 0 1 40 1 80 ?M = Inr (r2, m2)"
    by (auto split: sum.splits)
  have "Module_main Num 5 0 1 40 1 80 ?M = Inr (r2, m2) \<longrightarrow> r2 = 40"
    using T [THEN conjunct2] by (rule conjunct1)
  with 2 have c2: "\<exists>m'. Module_main Num 5 0 1 40 1 80 ?M = Inr (40, m')" by auto
  have "case Routine_ndarray Num view_host 5 0 1 0 40 1 0 80 ?M of Inl e \<Rightarrow> False | Inr p \<Rightarrow> True"
    by code_simp
  then obtain r3 m3 where 3: "Routine_ndarray Num view_host 5 0 1 0 40 1 0 80 ?M = Inr (r3, m3)"
    by (auto split: sum.splits)
  have "Routine_ndarray Num view_host 5 0 1 0 40 1 0 80 ?M = Inr (r3, m3) \<longrightarrow> r3 = 40"
    using T [THEN conjunct2, THEN conjunct2] by (rule conjunct1)
  with 3 have c3: "\<exists>h'. Routine_ndarray Num view_host 5 0 1 0 40 1 0 80 ?M = Inr (40, h')" by auto
  have "case Routine_main Num view_host 5 0 1 40 1 80 ?M of Inl e \<Rightarrow> False | Inr p \<Rightarrow> True"
    by code_simp
  then obtain r4 m4 where 4: "Routine_main Num view_host 5 0 1 40 1 80 ?M = Inr (r4, m4)"
    by (auto split: sum.splits)
  have "Routine_main Num view_host 5 0 1 40 1 80 ?M = Inr (r4, m4) \<longrightarrow> r4 = 40"
    using T [THEN conjunct2, THEN conjunct2, THEN conjunct2] by (rule conjunct1)
  with 4 have c4: "\<exists>h'. Routine_main Num view_host 5 0 1 40 1 80 ?M = Inr (40, h')" by auto
  have "word_sle (0 :: i32) 0 \<or> f64_load ?M 80 0 = Inr (Num (- 2)) \<longrightarrow>
        Module_ndarray Num 0 0 1 0 40 1 0 80 ?M = Inr (40, ?M)
        \<and> Module_main Num 0 0 1 40 1 80 ?M = Inr (40, ?M)"
    using T [THEN conjunct2, THEN conjunct2, THEN conjunct2] by (rule conjunct2)
  then have c5: "Module_ndarray Num 0 0 1 0 40 1 0 80 ?M = Inr (40, ?M)" by simp
  from c1 c2 c3 c4 c5 show ?thesis by blast
qed

text \<open>
  C3. The explicit-offset form with \<open>N = 2\<close>, \<open>x = [1,2,3,4,5]\<close> at byte 0,
  \<open>y = [6,7,8,9,10]\<close> at byte 40, \<open>param = [0,0,2,-3,0]\<close>, both strides 1, \<open>offsetX = 0\<close>
  and \<open>offsetY = 2\<close>: the claim has the elements 2 and 3 of \<open>y\<close> (bytes 56 and 64) read
  and written; the kernel, on its path for equal positive strides, reads and writes the
  elements 0 and 1 (bytes 40 and 48) and leaves the elements 2 and 3 as they were.
\<close>

theorem equal_strides_ignore_offsetY:
  "observe (Module_ndarray Num 2 0 1 0 40 1 2 80
              (memory_of [1, 2, 3, 4, 5, 6, 7, 8, 9, 10, 0, 0, 2, - 3, 0])) 0 10
     = Returned 40 (map Num [- 17, - 19, 3, 4, 5, 8, 11, 8, 9, 10])
   \<and> kernel_y_addr 40 1 0 1 2 0 = 40 \<and> elem_addr 40 1 2 0 = 56
   \<and> kernel_y_addr 40 1 0 1 2 1 = 48 \<and> elem_addr 40 1 2 1 = 64"
  by code_simp

text \<open>
  C8. The logical sequences \<open>x = [1,2]\<close> (elements 0 and 1) and the elements 2 and 3 of
  \<open>y = [10,20,30,40]\<close>, walked backwards (strides \<open>-1\<close> from the offsets 1 and 3) and
  forwards (strides \<open>+1\<close> from the offsets 0 and 2). Backwards the kernel reads and
  writes the \<open>y\<close> cells at bytes 40 and 32, the elements 3 and 2; forwards it reads and
  writes the cells at bytes 16 and 24, the elements 0 and 1, and not the same cells in
  reverse order. The contents it leaves differ as well.
\<close>

theorem positive_stride_touches_other_cells:
  "map (kernel_y_addr 16 (- 1) 1 (- 1) 3) [0..<2] = [40, 32]
   \<and> map (kernel_y_addr 16 1 0 1 2) [0..<2] = [16, 24]
   \<and> observe (Module_ndarray Num 2 0 (- 1) 1 16 (- 1) 3 48
              (memory_of [1, 2, 10, 20, 30, 40, 0, 0, 2, - 3, 0])) 0 6
     = Returned 16 (map Num [- 89, - 118, 10, 20, 32, 44])
   \<and> observe (Module_ndarray Num 2 0 1 0 16 1 2 48
              (memory_of [1, 2, 10, 20, 30, 40, 0, 0, 2, - 3, 0])) 0 6
     = Returned 16 (map Num [- 29, - 58, 12, 24, 30, 40])"
  by code_simp

text \<open>
  C9, as stated, fails: with a \<open>param\<close> of six doubles, and with a \<open>param\<close> of four
  doubles at the end of the memory, the call returns normally and has changed \<open>x\<close> and
  \<open>y\<close>.
\<close>

theorem param_length_unchecked:
  "observe (Module_ndarray Num 2 0 1 0 16 1 0 32
              (memory_of [1, 2, 3, 4, 0, 0, 2, - 3, 0, 99])) 0 4
     = Returned 16 (map Num [- 8, - 10, 5, 8])
   \<and> observe (Module_ndarray Num 2 0 1 0 16 1 0 32
              (memory_of [1, 2, 3, 4, 0, 0, 2, - 3])) 0 4
     = Returned 16 (map Num [- 8, - 10, 5, 8])"
  by code_simp

text \<open>A flag equal to zero is neither negative nor \<open>-2\<close>.\<close>

lemma f64_eq_zero_not_lt: "f64_eq a (Num 0) \<Longrightarrow> \<not> f64_lt a (Num 0) \<and> \<not> f64_eq a (Num (- 2))"
  by (cases a) simp_all

text \<open>
  C9, as amended. The length of \<open>param\<close> is not checked. A call with \<open>N > 0\<close> fails
  eagerly, with a trap that leaves the memory as it was, when the memory ends before a
  parameter that the call reads: the flag itself; any of the five doubles when the flag
  is neither \<open>-2\<close> nor \<open>0\<close>; any of the first four when the flag is \<open>0\<close>.
\<close>

theorem unreadable_param_traps_first:
  assumes "\<not> word_sle N 0"
  shows "(\<not> unat pptr + 8 \<le> mem_size m \<longrightarrow>
       Module_ndarray rnd N xptr strideX offsetX yptr strideY offsetY pptr m = Inl (Trap m))
    \<and> (unat pptr + 8 \<le> mem_size m \<and> \<not> f64_eq (param_at m pptr 0) (Num (- 2))
        \<and> \<not> f64_eq (param_at m pptr 0) (Num 0) \<and> \<not> unat pptr + 40 \<le> mem_size m \<longrightarrow>
       Module_ndarray rnd N xptr strideX offsetX yptr strideY offsetY pptr m = Inl (Trap m))
    \<and> (unat pptr + 8 \<le> mem_size m \<and> f64_eq (param_at m pptr 0) (Num 0)
        \<and> \<not> unat pptr + 32 \<le> mem_size m \<longrightarrow>
       Module_ndarray rnd N xptr strideX offsetX yptr strideY offsetY pptr m = Inl (Trap m))"
  using assms
  by (auto simp add: Module_ndarray_def c_drotm_ndarray_def f64_load_def param_at_def
      dest: f64_eq_zero_not_lt)

text \<open>Three calls whose parameters end with the memory.\<close>

theorem unreadable_param_traps_first_witness:
  "Module_ndarray Num 2 0 1 0 16 1 0 56 (memory_of [1, 2, 3, 4, 1, 0, 2])
     = Inl (Trap (memory_of [1, 2, 3, 4, 1, 0, 2]))
   \<and> Module_ndarray Num 2 0 1 0 16 1 0 32 (memory_of [1, 2, 3, 4, 1, 0, 2])
     = Inl (Trap (memory_of [1, 2, 3, 4, 1, 0, 2]))
   \<and> Module_ndarray Num 2 0 1 0 16 1 0 32 (memory_of [1, 2, 3, 4, 0, 0, 2])
     = Inl (Trap (memory_of [1, 2, 3, 4, 0, 0, 2]))"
proof -
  have N: "\<not> word_sle (2 :: i32) 0" by (simp add: word_sle_eq)
  note T = unreadable_param_traps_first [OF N]
  have "\<not> unat (56 :: i32) + 8 \<le> mem_size (memory_of [1, 2, 3, 4, 1, 0, 2])"
    by (simp add: memory_of_def)
  with T [THEN conjunct1]
  have 1: "Module_ndarray Num 2 0 1 0 16 1 0 56 (memory_of [1, 2, 3, 4, 1, 0, 2])
     = Inl (Trap (memory_of [1, 2, 3, 4, 1, 0, 2]))" by blast
  have "unat (32 :: i32) + 8 \<le> mem_size (memory_of [1, 2, 3, 4, 1, 0, 2])
      \<and> \<not> f64_eq (param_at (memory_of [1, 2, 3, 4, 1, 0, 2]) 32 0) (Num (- 2))
      \<and> \<not> f64_eq (param_at (memory_of [1, 2, 3, 4, 1, 0, 2]) 32 0) (Num 0)
      \<and> \<not> unat (32 :: i32) + 40 \<le> mem_size (memory_of [1, 2, 3, 4, 1, 0, 2])"
    by (simp add: memory_of_def param_at_def)
  with T [THEN conjunct2, THEN conjunct1]
  have 2: "Module_ndarray Num 2 0 1 0 16 1 0 32 (memory_of [1, 2, 3, 4, 1, 0, 2])
     = Inl (Trap (memory_of [1, 2, 3, 4, 1, 0, 2]))" by blast
  have "unat (32 :: i32) + 8 \<le> mem_size (memory_of [1, 2, 3, 4, 0, 0, 2])
      \<and> f64_eq (param_at (memory_of [1, 2, 3, 4, 0, 0, 2]) 32 0) (Num 0)
      \<and> \<not> unat (32 :: i32) + 32 \<le> mem_size (memory_of [1, 2, 3, 4, 0, 0, 2])"
    by (simp add: memory_of_def param_at_def)
  with T [THEN conjunct2, THEN conjunct2]
  have 3: "Module_ndarray Num 2 0 1 0 16 1 0 32 (memory_of [1, 2, 3, 4, 0, 0, 2])
     = Inl (Trap (memory_of [1, 2, 3, 4, 0, 0, 2]))" by blast
  from 1 2 3 show ?thesis by blast
qed

text \<open>
  C5, as stated, fails on views that overlap across iterations: \<open>x\<close> on the cells 2, 1
  and \<open>y\<close> on the cells 1, 0 of the same buffer (both strides \<open>-1\<close>). The second
  iteration reads the cell 1 that the first has written, which the reference with
  scratch copies does not.
\<close>

theorem overlapping_views_differ_from_scratch_reference:
  "observe (Module_ndarray Num 2 0 (- 1) 2 0 (- 1) 1 24
              (memory_of [1, 2, 3, 0, 0, 2, - 3, 0])) 0 3
     \<noteq> Returned 0 (read_f64 (scratch_reference (unit_diagonal Num (Num 2) (Num (- 3)))
            (elem_addr 0 (- 1) 2) (elem_addr 0 (- 1) 1) 2
            (memory_of [1, 2, 3, 0, 0, 2, - 3, 0])) 0 3)"
  by code_simp

text \<open>The flag 7 selects the formulas of \<open>flag = 1\<close>.\<close>

theorem other_flags_by_sign_witness:
  "c_drotm_ndarray Num 2 0 1 0 16 1 0 32 (memory_of [1, 2, 3, 4, 7, 2, 3, 4, 5]) =
     Inr (foldl (\<lambda>m' i. update_pair
         (if f64_lt (param_at (memory_of [1, 2, 3, 4, 7, 2, 3, 4, 5]) 32 0) (Num 0)
          then full_matrix Num (param_at (memory_of [1, 2, 3, 4, 7, 2, 3, 4, 5]) 32 1)
                 (param_at (memory_of [1, 2, 3, 4, 7, 2, 3, 4, 5]) 32 2)
                 (param_at (memory_of [1, 2, 3, 4, 7, 2, 3, 4, 5]) 32 3)
                 (param_at (memory_of [1, 2, 3, 4, 7, 2, 3, 4, 5]) 32 4)
          else if f64_eq (param_at (memory_of [1, 2, 3, 4, 7, 2, 3, 4, 5]) 32 0) (Num 0)
          then unit_diagonal Num (param_at (memory_of [1, 2, 3, 4, 7, 2, 3, 4, 5]) 32 2)
                 (param_at (memory_of [1, 2, 3, 4, 7, 2, 3, 4, 5]) 32 3)
          else unit_antidiagonal Num (param_at (memory_of [1, 2, 3, 4, 7, 2, 3, 4, 5]) 32 1)
                 (param_at (memory_of [1, 2, 3, 4, 7, 2, 3, 4, 5]) 32 4))
         (elem_addr 0 1 0 i) (kernel_y_addr 16 1 0 1 0 i) m')
       (memory_of [1, 2, 3, 4, 7, 2, 3, 4, 5]) [0..<unat (2 :: i32)])
   \<and> observe (Module_ndarray Num 2 0 1 0 16 1 0 32 (memory_of [1, 2, 3, 4, 7, 2, 3, 4, 5])) 0 4
       = Returned 16 (map Num [5, 8, 14, 18])"
proof -
  let ?M = "memory_of [1, 2, 3, 4, 7, 2, 3, 4, 5]"
  have N: "\<not> word_sle (2 :: i32) 0" by (simp add: word_sle_eq)
  have P: "unat (32 :: i32) + 40 \<le> mem_size ?M"
    by (simp add: memory_of_def)
  have F: "\<not> f64_eq (param_at ?M 32 0) (Num (- 2))"
    by (simp add: param_at_def memory_of_def)
  have "\<forall>i\<in>set [0..<unat (2 :: i32)]. elem_addr 0 1 0 i + 8 \<le> mem_size ?M
            \<and> kernel_y_addr 16 1 0 1 0 i + 8 \<le> mem_size ?M"
    by code_simp
  then have B: "\<forall>i<unat (2 :: i32). elem_addr 0 1 0 i + 8 \<le> mem_size ?M
            \<and> kernel_y_addr 16 1 0 1 0 i + 8 \<le> mem_size ?M"
    by simp
  have O: "observe (Module_ndarray Num 2 0 1 0 16 1 0 32 ?M) 0 4 = Returned 16 (map Num [5, 8, 14, 18])"
    by code_simp
  show ?thesis
    using other_flags_by_sign [OF N P F B] O by (intro conjI)
qed

text \<open>Interleaved views: \<open>x\<close> on the cells 0 and 2, \<open>y\<close> on the cells 1 and 3 of one buffer.\<close>

theorem aliasing_pre_update_values_witness:
  "c_drotm_ndarray Num 2 0 2 0 8 2 0 32 (memory_of [1, 10, 2, 20, 0, 0, 2, - 3, 0]) =
     Inr (scratch_reference
       (kernel_rotation Num (param_at (memory_of [1, 10, 2, 20, 0, 0, 2, - 3, 0]) 32 0)
          (param_at (memory_of [1, 10, 2, 20, 0, 0, 2, - 3, 0]) 32 1)
          (param_at (memory_of [1, 10, 2, 20, 0, 0, 2, - 3, 0]) 32 2)
          (param_at (memory_of [1, 10, 2, 20, 0, 0, 2, - 3, 0]) 32 3)
          (param_at (memory_of [1, 10, 2, 20, 0, 0, 2, - 3, 0]) 32 4))
       (elem_addr 0 2 0) (elem_addr 8 2 0) (unat (2 :: i32))
       (memory_of [1, 10, 2, 20, 0, 0, 2, - 3, 0]))
   \<and> observe (Module_ndarray Num 2 0 2 0 8 2 0 32 (memory_of [1, 10, 2, 20, 0, 0, 2, - 3, 0])) 0 4
       = Returned 8 (map Num [- 29, 12, - 58, 24])"
proof -
  let ?M = "memory_of [1, 10, 2, 20, 0, 0, 2, - 3, 0]"
  have N: "\<not> word_sle (2 :: i32) 0" by (simp add: word_sle_eq)
  have P: "unat (32 :: i32) + 40 \<le> mem_size ?M"
    by (simp add: memory_of_def)
  have F: "\<not> f64_eq (param_at ?M 32 0) (Num (- 2))"
    by (simp add: param_at_def memory_of_def)
  have "\<forall>i\<in>set [0..<unat (2 :: i32)]. elem_addr 0 2 0 i + 8 \<le> mem_size ?M
            \<and> elem_addr 8 2 0 i + 8 \<le> mem_size ?M"
    by code_simp
  then have B: "\<forall>i<unat (2 :: i32). elem_addr 0 2 0 i + 8 \<le> mem_size ?M
            \<and> elem_addr 8 2 0 i + 8 \<le> mem_size ?M"
    by simp
  have D: "distinct (map (elem_addr 0 2 0) [0..<unat (2 :: i32)]
                      @ map (elem_addr 8 2 0) [0..<unat (2 :: i32)])"
    by code_simp
  have A: "cells_apart (map (elem_addr 0 2 0) [0..<unat (2 :: i32)]
                      @ map (elem_addr 8 2 0) [0..<unat (2 :: i32)])"
    by code_simp
  have S: "(2 :: i32) = 2 \<and> \<not> word_sle (2 :: i32) 0 \<longrightarrow> (0 :: i32) = 0"
    by simp
  have O: "observe (Module_ndarray Num 2 0 2 0 8 2 0 32 ?M) 0 4 = Returned 8 (map Num [- 29, 12, - 58, 24])"
    by code_simp
  from B D A S have H: "(\<forall>i<unat (2 :: i32). elem_addr 0 2 0 i + 8 \<le> mem_size ?M
            \<and> elem_addr 8 2 0 i + 8 \<le> mem_size ?M)
      \<and> distinct (map (elem_addr 0 2 0) [0..<unat (2 :: i32)]
                      @ map (elem_addr 8 2 0) [0..<unat (2 :: i32)])
      \<and> cells_apart (map (elem_addr 0 2 0) [0..<unat (2 :: i32)]
                      @ map (elem_addr 8 2 0) [0..<unat (2 :: i32)])
      \<and> ((2 :: i32) = 2 \<and> \<not> word_sle (2 :: i32) 0 \<longrightarrow> (0 :: i32) = 0)"
    by (intro conjI)
  show ?thesis
    using aliasing_pre_update_values [OF N P F, THEN conjunct2, rule_format, OF H] O
    by (intro conjI)
qed

end
